theory Spec2Isabelle
  imports Complex_Main "HOL-Library.AList"
begin

section \<open>Room session and playback synchronisation: the data model\<close>

text \<open>
  The server keeps one table \<open>rooms\<close> (a JavaScript \<open>Map\<close> from room identifier
  to room object); every socket handler reads and mutates it. Two implementations of the
  handlers exist in the repository: the stand-alone server script (the handlers registered
  in \<open>io.on("connection", ...)\<close>) and the class \<open>WebSocketManager\<close>. Both are embedded
  here; the definitions of the second carry the prefix \<open>ws_\<close>.

  Modelling decisions.
  \<^item> A JavaScript number is a \<open>rat\<close>: arithmetic is exact, the rounding of IEEE doubles
    is not modelled. \<open>Date.now()\<close> is a parameter \<open>now\<close> of each handler that reads
    the clock; ISO renderings of the clock (\<open>joinedAt\<close>, \<open>createdAt\<close>, \<open>addedAt\<close>)
    and \<open>Date.now().toString()\<close> are kept as the number they render.
  \<^item> A \<open>Map\<close> is an association list in insertion order: \<open>Map.set\<close> is
    \<open>AList.update\<close> (replace in place, else append), \<open>Map.delete\<close> is
    \<open>AList.delete\<close>, \<open>Map.get\<close> is \<open>map_of\<close>, and a field assignment on an
    object held in the map is \<open>AList.map_entry\<close>.
  \<^item> \<open>null\<close> and \<open>undefined\<close> are \<open>None\<close>. Truthiness is written out: a string
    is truthy iff it is non-empty, a number iff it is not \<open>0\<close>.
  \<^item> A handler returns the new table together with the list of effects on the
    transport (emits, and joining or leaving a transport-level room), in program order.
  \<^item> Field names that clash with a HOL constant or with a variable name used below
    carry a short prefix (\<open>p_id\<close> for a participant's \<open>id\<close>, and so on).
\<close>

type_synonym number = rat
type_synonym socket_id = string
type_synonym room_id = string

record song =
  s_id :: number
  title :: string
  artist :: "string option"
  duration :: number
  url :: string
  addedBy :: string
  addedAt :: number

record song_request =
  n_title :: string
  n_artist :: "string option"
  n_duration :: number
  n_url :: string
  n_addedBy :: string

record participant =
  p_id :: string
  p_name :: string
  isAdmin :: bool
  joinedAt :: number
  isOnline :: bool

text \<open>The \<open>user\<close> object of a \<open>join-room\<close> request; an absent \<open>isAdmin\<close> is \<open>False\<close>.\<close>

record join_user =
  u_id :: string
  u_name :: string
  u_isAdmin :: bool

record chat_message =
  m_id :: string
  m_user :: string
  m_message :: string
  m_timestamp :: string
  m_roomId :: room_id

record playback_state =
  currentSong :: "song option"
  isPlaying :: bool
  currentTime :: number
  volume :: number
  playlist :: "song list"
  currentIndex :: int
  serverStartTime :: "number option"
  playbackStartTime :: "number option"
  lastSyncTime :: number

record room_settings =
  allowGuestControl :: bool
  maxParticipants :: int
  isPublic :: bool
  requireApproval :: bool

text \<open>The payload of \<open>update-settings\<close>: each field may be absent.\<close>

record settings_patch =
  set_allowGuestControl :: "bool option"
  set_maxParticipants :: "int option"
  set_isPublic :: "bool option"
  set_requireApproval :: "bool option"

text \<open>
  \<open>syncInterval\<close> is the timer handle of \<open>WebSocketManager\<close>: \<open>True\<close> while a
  periodic broadcast is armed. The stand-alone server never sets it.
\<close>

record room =
  r_id :: room_id
  r_name :: string
  creator :: string
  participants :: "(socket_id \<times> participant) list"
  messages :: "chat_message list"
  playbackState :: playback_state
  settings :: room_settings
  createdAt :: number
  syncInterval :: bool

type_synonym server = "(room_id \<times> room) list"

text \<open>
  The \<open>room\<close> part of a \<open>room-state\<close> event (its \<open>description\<close> is never
  assigned and is left out).
\<close>

record room_info =
  i_id :: room_id
  i_name :: string
  i_creator :: string
  i_settings :: room_settings

datatype event =
    RoomError string
  | UserJoined string "participant list"
  | RoomState room_info "participant list" "chat_message list" playback_state number
  | SyncUpdate playback_state number
  | UserLeft string "participant list"
  | NewMessage chat_message
  | PlaylistUpdated playback_state
  | PermissionDenied string
  | PlaybackStateChanged playback_state number
  | KickedFromRoom string
  | AdminTransferred string "participant list"
  | RoomSettingsUpdated room_settings
  | RoomClosed string

text \<open>
  \<open>ToSocket s\<close> is \<open>socket.emit\<close> on the handler's own socket, or \<open>io.to(s).emit\<close>
  for a socket identifier \<open>s\<close>; \<open>ToRoom r\<close> is \<open>io.to(r).emit\<close> (every socket of
  the room); \<open>ToRoomExcept r s\<close> is \<open>socket.to(r).emit\<close> (the room without the sender).
\<close>

datatype recipient = ToSocket socket_id | ToRoom room_id | ToRoomExcept room_id socket_id

datatype effect =
    Emit recipient event
  | SocketJoin socket_id room_id
  | SocketsLeave socket_id room_id

text \<open>
  The \<open>action\<close> and \<open>payload\<close> of a \<open>playback-control\<close> request. \<open>Play c\<close> carries
  \<open>payload?.currentTime\<close> (\<open>None\<close> when the payload or the field is absent);
  \<open>Seek\<close> and \<open>Volume\<close> carry the number that the state's interface requires;
  \<open>OtherAction\<close> is any action string that no \<open>case\<close> matches.
\<close>

datatype action =
    Play "number option"
  | Pause
  | Seek number
  | Next
  | Previous
  | Volume number
  | OtherAction

text \<open>The \<open>action\<close>, \<open>targetUserId\<close> and \<open>payload\<close> of a \<open>user-action\<close> request.\<close>

datatype user_act =
    KickUser "string option"
  | TransferAdmin "string option"
  | UpdateSettings "settings_patch option"
  | OtherUserAction

section \<open>Playback control\<close>

text \<open>\<open>x || d\<close> on an optional number: the default is taken for \<open>undefined\<close> and for \<open>0\<close>.\<close>

definition or_default :: "number option \<Rightarrow> number \<Rightarrow> number" where
  "or_default x d = (case x of None \<Rightarrow> d | Some c \<Rightarrow> if c \<noteq> 0 then c else d)"

text \<open>\<open>playlist[i]\<close>: \<open>undefined\<close> outside the array.\<close>

definition playlist_at :: "song list \<Rightarrow> int \<Rightarrow> song option" where
  "playlist_at xs i = (if 0 \<le> i \<and> i < int (length xs) then Some (xs ! nat i) else None)"

text \<open>
  The position extrapolated from the anchor, as \<open>request-sync\<close>, \<open>pause\<close> and
  \<open>broadcastSync\<close> each compute it under the guard
  \<open>serverStartTime && playbackStartTime !== null\<close>; \<open>None\<close> when the guard fails.
\<close>

definition anchored_time :: "playback_state \<Rightarrow> number \<Rightarrow> number option" where
  "anchored_time ps currentServerTime =
     (case serverStartTime ps of
        None \<Rightarrow> None
      | Some s \<Rightarrow>
          if s = 0 then None
          else (case playbackStartTime ps of
                  None \<Rightarrow> None
                | Some p \<Rightarrow> Some (p + (currentServerTime - s) / 1000)))"

text \<open>The \<open>switch (action)\<close> of the \<open>playback-control\<close> handler, the same in both implementations.\<close>

fun apply_action :: "action \<Rightarrow> number \<Rightarrow> playback_state \<Rightarrow> playback_state" where
  "apply_action (Play c) currentServerTime ps =
     ps\<lparr>isPlaying := True,
        serverStartTime := Some currentServerTime,
        playbackStartTime := Some (or_default c (currentTime ps)),
        lastSyncTime := currentServerTime\<rparr>"
| "apply_action Pause currentServerTime ps =
     (let ps1 = ps\<lparr>isPlaying := False\<rparr>;
          ps2 = (case anchored_time ps1 currentServerTime of
                   None \<Rightarrow> ps1
                 | Some c \<Rightarrow> ps1\<lparr>currentTime := c\<rparr>)
      in ps2\<lparr>serverStartTime := None,
             playbackStartTime := None,
             lastSyncTime := currentServerTime\<rparr>)"
| "apply_action (Seek c) currentServerTime ps =
     (let ps1 = ps\<lparr>currentTime := c\<rparr>;
          ps2 = (if isPlaying ps1
                 then ps1\<lparr>serverStartTime := Some currentServerTime,
                          playbackStartTime := Some c\<rparr>
                 else ps1)
      in ps2\<lparr>lastSyncTime := currentServerTime\<rparr>)"
| "apply_action Next currentServerTime ps =
     (if currentIndex ps < int (length (playlist ps)) - 1
      then (let ps1 = ps\<lparr>currentIndex := currentIndex ps + 1\<rparr>;
                ps2 = ps1\<lparr>currentSong := playlist_at (playlist ps1) (currentIndex ps1),
                          currentTime := 0\<rparr>;
                ps3 = (if isPlaying ps2
                       then ps2\<lparr>serverStartTime := Some currentServerTime,
                                playbackStartTime := Some 0\<rparr>
                       else ps2)
            in ps3\<lparr>lastSyncTime := currentServerTime\<rparr>)
      else ps)"
| "apply_action Previous currentServerTime ps =
     (if currentIndex ps > 0
      then (let ps1 = ps\<lparr>currentIndex := currentIndex ps - 1\<rparr>;
                ps2 = ps1\<lparr>currentSong := playlist_at (playlist ps1) (currentIndex ps1),
                          currentTime := 0\<rparr>;
                ps3 = (if isPlaying ps2
                       then ps2\<lparr>serverStartTime := Some currentServerTime,
                                playbackStartTime := Some 0\<rparr>
                       else ps2)
            in ps3\<lparr>lastSyncTime := currentServerTime\<rparr>)
      else ps)"
| "apply_action (Volume v) currentServerTime ps =
     ps\<lparr>volume := v, lastSyncTime := currentServerTime\<rparr>"
| "apply_action OtherAction currentServerTime ps = ps"

text \<open>
  The \<open>playback-control\<close> handler of the stand-alone server: nothing happens unless the
  room exists and the socket holds a slot in it; a slot that is neither admin nor covered
  by \<open>allowGuestControl\<close> gets \<open>permission-denied\<close> on its own socket; otherwise the
  switch runs and the state is emitted to the room, whatever the switch did.
\<close>

definition playback_control ::
  "server \<Rightarrow> socket_id \<Rightarrow> room_id \<Rightarrow> action \<Rightarrow> number \<Rightarrow> server \<times> effect list" where
  "playback_control rooms sid roomId act currentServerTime =
     (case map_of rooms roomId of
        None \<Rightarrow> (rooms, [])
      | Some room \<Rightarrow>
          (case map_of (participants room) sid of
             None \<Rightarrow> (rooms, [])
           | Some user \<Rightarrow>
               if \<not> isAdmin user \<and> \<not> allowGuestControl (settings room)
               then (rooms,
                     [Emit (ToSocket sid) (PermissionDenied ''Only admins can control playback'')])
               else (let room' = room\<lparr>playbackState :=
                                   apply_action act currentServerTime (playbackState room)\<rparr>
                     in (AList.update roomId room' rooms,
                         [Emit (ToRoom roomId)
                            (PlaybackStateChanged (playbackState room') currentServerTime)]))))"

text \<open>
  The same handler in \<open>WebSocketManager\<close>: the room must exist, the slot is looked up
  with \<open>user?.isAdmin\<close> (a socket without a slot counts as non-admin), and after the
  emit \<open>play\<close> arms the periodic broadcast and \<open>pause\<close> clears it.
\<close>

definition ws_playback_control ::
  "server \<Rightarrow> socket_id \<Rightarrow> room_id \<Rightarrow> action \<Rightarrow> number \<Rightarrow> server \<times> effect list" where
  "ws_playback_control rooms sid roomId act currentServerTime =
     (case map_of rooms roomId of
        None \<Rightarrow> (rooms, [])
      | Some room \<Rightarrow>
          if \<not> (case map_of (participants room) sid of None \<Rightarrow> False | Some user \<Rightarrow> isAdmin user)
             \<and> \<not> allowGuestControl (settings room)
          then (rooms,
                [Emit (ToSocket sid) (PermissionDenied ''Only admins can control playback'')])
          else (let room1 = room\<lparr>playbackState :=
                               apply_action act currentServerTime (playbackState room)\<rparr>;
                    room2 = (if (case act of Play c \<Rightarrow> True | _ \<Rightarrow> False) \<and> \<not> syncInterval room1
                             then room1\<lparr>syncInterval := True\<rparr>
                             else if act = Pause \<and> syncInterval room1
                             then room1\<lparr>syncInterval := False\<rparr>
                             else room1)
                in (AList.update roomId room2 rooms,
                    [Emit (ToRoom roomId)
                       (PlaybackStateChanged (playbackState room1) currentServerTime)])))"

section \<open>Sync requests and the periodic broadcast\<close>

text \<open>
  The \<open>request-sync\<close> handler (identical in both implementations): the stored state is
  copied, the copy's \<open>currentTime\<close> is replaced by the extrapolated position when the
  room is playing with a usable anchor, and the copy goes to the requesting socket.
\<close>

definition request_sync ::
  "server \<Rightarrow> socket_id \<Rightarrow> room_id \<Rightarrow> number \<Rightarrow> server \<times> effect list" where
  "request_sync rooms sid roomId currentServerTime =
     (case map_of rooms roomId of
        None \<Rightarrow> (rooms, [])
      | Some room \<Rightarrow>
          (let ps = playbackState room;
               calculatedTime =
                 (if isPlaying ps
                  then (case anchored_time ps currentServerTime of
                          None \<Rightarrow> currentTime ps
                        | Some c \<Rightarrow> c)
                  else currentTime ps)
           in (rooms,
               [Emit (ToSocket sid)
                  (SyncUpdate (ps\<lparr>currentTime := calculatedTime\<rparr>) currentServerTime)])))"

text \<open>\<open>WebSocketManager.broadcastSync\<close>, run by the timer that \<open>play\<close> arms.\<close>

definition ws_broadcastSync :: "server \<Rightarrow> room_id \<Rightarrow> number \<Rightarrow> server \<times> effect list" where
  "ws_broadcastSync rooms roomId currentServerTime =
     (case map_of rooms roomId of
        None \<Rightarrow> (rooms, [])
      | Some room \<Rightarrow>
          if \<not> isPlaying (playbackState room) then (rooms, [])
          else (let ps = playbackState room;
                    calculatedTime =
                      (case anchored_time ps currentServerTime of
                         None \<Rightarrow> currentTime ps
                       | Some c \<Rightarrow> c)
                in (rooms,
                    [Emit (ToRoom roomId)
                       (SyncUpdate (ps\<lparr>currentTime := calculatedTime\<rparr>) currentServerTime)])))"

section \<open>Joining and leaving\<close>

text \<open>The room object that \<open>join-room\<close> creates for an unknown room identifier.\<close>

definition new_room :: "room_id \<Rightarrow> join_user \<Rightarrow> number \<Rightarrow> room" where
  "new_room roomId user now =
     \<lparr>r_id = roomId,
      r_name = ''Room '' @ roomId,
      creator = u_name user,
      participants = [],
      messages = [],
      playbackState =
        \<lparr>currentSong = None, isPlaying = False, currentTime = 0, volume = 1,
         playlist = [], currentIndex = - 1, serverStartTime = None,
         playbackStartTime = None, lastSyncTime = now\<rparr>,
      settings =
        \<lparr>allowGuestControl = False, maxParticipants = 50, isPublic = True,
         requireApproval = False\<rparr>,
      createdAt = now,
      syncInterval = False\<rparr>"

text \<open>
  The first entry of the participant map whose participant has the given identifier:
  the \<open>for ... break\<close> loop of \<open>join-room\<close> and the \<open>Array.from(...).find(...)\<close>
  of \<open>user-action\<close>.
\<close>

definition find_by_user_id ::
  "string \<Rightarrow> (socket_id \<times> participant) list \<Rightarrow> (socket_id \<times> participant) option" where
  "find_by_user_id uid ps = find (\<lambda>(sockId, participant). p_id participant = uid) ps"

text \<open>
  The reconnection step of \<open>join-room\<close>: a slot of the same user under another,
  truthy socket identifier is deleted.
\<close>

definition remove_old_connection ::
  "socket_id \<Rightarrow> join_user \<Rightarrow> (socket_id \<times> participant) list \<Rightarrow> (socket_id \<times> participant) list" where
  "remove_old_connection sid user ps =
     (case find_by_user_id (u_id user) ps of
        None \<Rightarrow> ps
      | Some (existingSocketId, old) \<Rightarrow>
          if existingSocketId \<noteq> [] \<and> existingSocketId \<noteq> sid
          then AList.delete existingSocketId ps
          else ps)"

text \<open>
  The \<open>join-room\<close> handler of the stand-alone server. The request's \<open>user\<close> object is
  present (the handler reads \<open>user.name\<close> before it validates), so the validation
  amounts to a non-empty room identifier and a non-empty name.
\<close>

definition join_room ::
  "server \<Rightarrow> socket_id \<Rightarrow> room_id \<Rightarrow> join_user \<Rightarrow> number \<Rightarrow> server \<times> effect list" where
  "join_room rooms sid roomId user now =
     (if roomId = [] \<or> u_name user = []
      then (rooms, [Emit (ToSocket sid) (RoomError ''Invalid room data'')])
      else
        (let (rooms1, room) =
               (case map_of rooms roomId of
                  None \<Rightarrow> (AList.update roomId (new_room roomId user now) rooms,
                            new_room roomId user now)
                | Some r \<Rightarrow> (rooms, r))
         in if int (length (participants room)) \<ge> maxParticipants (settings room)
            then (rooms1, [Emit (ToSocket sid) (RoomError ''Room is full'')])
            else
              (let ps1 = remove_old_connection sid user (participants room);
                   participantData =
                     \<lparr>p_id = u_id user,
                      p_name = u_name user,
                      isAdmin = (if ps1 = [] then True else u_isAdmin user),
                      joinedAt = now,
                      isOnline = True\<rparr>;
                   creator1 = (if ps1 = [] then u_name user else creator room);
                   ps2 = AList.update sid participantData ps1;
                   room' = room\<lparr>creator := creator1, participants := ps2\<rparr>;
                   participantsList = map snd ps2
               in (AList.update roomId room' rooms1,
                   [SocketJoin sid roomId]
                   @ (if length ps2 > 1
                      then [Emit (ToRoomExcept roomId sid)
                              (UserJoined (u_name user) participantsList)]
                      else [])
                   @ [Emit (ToSocket sid)
                        (RoomState
                           \<lparr>i_id = r_id room', i_name = r_name room',
                            i_creator = creator room', i_settings = settings room'\<rparr>
                           participantsList (messages room') (playbackState room') now)]))))"

text \<open>
  The \<open>disconnect\<close> handler of the stand-alone server: the rooms are visited in
  insertion order; the first one that holds the socket loses that slot, the others are
  told, the room is deleted when it is left empty, and the loop stops (\<open>break\<close>). The
  first argument is what remains to be visited, the third the table itself.
\<close>

fun disconnect_loop :: "(room_id \<times> room) list \<Rightarrow> socket_id \<Rightarrow> server \<Rightarrow> server \<times> effect list" where
  "disconnect_loop [] sid rooms = (rooms, [])"
| "disconnect_loop ((roomId, room) # rest) sid rooms =
     (case map_of (participants room) sid of
        None \<Rightarrow> disconnect_loop rest sid rooms
      | Some user \<Rightarrow>
          (let ps = AList.delete sid (participants room);
               left = [Emit (ToRoomExcept roomId sid) (UserLeft (p_name user) (map snd ps))]
           in if ps = []
              then (AList.delete roomId rooms, left)
              else (AList.update roomId (room\<lparr>participants := ps\<rparr>) rooms, left)))"

definition disconnect :: "server \<Rightarrow> socket_id \<Rightarrow> server \<times> effect list" where
  "disconnect rooms sid = disconnect_loop rooms sid rooms"

section \<open>Chat and playlist\<close>

text \<open>
  \<open>send-message\<close>: the identifier (clock and random suffix) and the rendered time of day
  are parameters.
\<close>

definition send_message ::
  "server \<Rightarrow> socket_id \<Rightarrow> room_id \<Rightarrow> string \<Rightarrow> string \<Rightarrow> string \<Rightarrow> string \<Rightarrow> server \<times> effect list" where
  "send_message rooms sid roomId msg sender newId renderedTime =
     (case map_of rooms roomId of
        None \<Rightarrow> (rooms, [])
      | Some room \<Rightarrow>
          (case map_of (participants room) sid of
             None \<Rightarrow> (rooms, [])
           | Some slot \<Rightarrow>
               (let chatMessage =
                      \<lparr>m_id = newId, m_user = sender, m_message = msg,
                       m_timestamp = renderedTime, m_roomId = roomId\<rparr>
                in (AList.update roomId (room\<lparr>messages := messages room @ [chatMessage]\<rparr>) rooms,
                    [Emit (ToRoom roomId) (NewMessage chatMessage)]))))"

definition add_song ::
  "server \<Rightarrow> socket_id \<Rightarrow> room_id \<Rightarrow> song_request \<Rightarrow> number \<Rightarrow> server \<times> effect list" where
  "add_song rooms sid roomId req now =
     (case map_of rooms roomId of
        None \<Rightarrow> (rooms, [])
      | Some room \<Rightarrow>
          (case map_of (participants room) sid of
             None \<Rightarrow> (rooms, [])
           | Some slot \<Rightarrow>
               (let newSong =
                      \<lparr>s_id = now, title = n_title req, artist = n_artist req,
                       duration = n_duration req, url = n_url req, addedBy = n_addedBy req,
                       addedAt = now\<rparr>;
                    ps1 = (playbackState room)\<lparr>playlist := playlist (playbackState room) @ [newSong]\<rparr>;
                    ps2 = (if currentSong ps1 = None \<and> length (playlist ps1) = 1
                           then ps1\<lparr>currentSong := Some newSong, currentIndex := 0\<rparr>
                           else ps1)
                in (AList.update roomId (room\<lparr>playbackState := ps2\<rparr>) rooms,
                    [Emit (ToRoom roomId) (PlaylistUpdated ps2)]))))"

section \<open>Membership administration\<close>

text \<open>\<open>{ ...room.settings, ...payload }\<close>: a field of the payload wins where it is present.\<close>

definition merge_settings :: "room_settings \<Rightarrow> settings_patch \<Rightarrow> room_settings" where
  "merge_settings s p =
     \<lparr>allowGuestControl = (case set_allowGuestControl p of None \<Rightarrow> allowGuestControl s | Some b \<Rightarrow> b),
      maxParticipants = (case set_maxParticipants p of None \<Rightarrow> maxParticipants s | Some n \<Rightarrow> n),
      isPublic = (case set_isPublic p of None \<Rightarrow> isPublic s | Some b \<Rightarrow> b),
      requireApproval = (case set_requireApproval p of None \<Rightarrow> requireApproval s | Some b \<Rightarrow> b)\<rparr>"

text \<open>
  The target lookup shared by \<open>kick-user\<close> and \<open>transfer-admin\<close>: the request must name
  a truthy \<open>targetUserId\<close>, a slot with that identifier must exist, and its socket
  identifier must be truthy. The slot's participant is what \<open>participants.get(targetSocket)\<close>
  returns, the keys of a \<open>Map\<close> being unique.
\<close>

definition find_target ::
  "string option \<Rightarrow> (socket_id \<times> participant) list \<Rightarrow> (socket_id \<times> participant) option" where
  "find_target targetUserId ps =
     (case targetUserId of
        None \<Rightarrow> None
      | Some tid \<Rightarrow>
          if tid = [] then None
          else (case find_by_user_id tid ps of
                  None \<Rightarrow> None
                | Some (targetSocket, targetUser) \<Rightarrow>
                    if targetSocket = [] then None else Some (targetSocket, targetUser)))"

text \<open>
  The \<open>switch (action)\<close> of the \<open>user-action\<close> handler, the same in both
  implementations; \<open>adminUser\<close> is the caller's slot, already checked to be admin.
  Wherever the target is missing, the branch does nothing at all.
\<close>

fun user_action_switch ::
  "server \<Rightarrow> socket_id \<Rightarrow> room_id \<Rightarrow> room \<Rightarrow> participant \<Rightarrow> user_act \<Rightarrow> server \<times> effect list" where
  "user_action_switch rooms sid roomId room adminUser (KickUser targetUserId) =
     (case find_target targetUserId (participants room) of
        None \<Rightarrow> (rooms, [])
      | Some (targetSocket, targetUser) \<Rightarrow>
          (let ps = AList.delete targetSocket (participants room)
           in (AList.update roomId (room\<lparr>participants := ps\<rparr>) rooms,
               [Emit (ToSocket targetSocket)
                  (KickedFromRoom (''You were removed from the room by '' @ p_name adminUser)),
                SocketsLeave targetSocket roomId,
                Emit (ToRoom roomId) (UserLeft (p_name targetUser) (map snd ps))])))"
| "user_action_switch rooms sid roomId room adminUser (TransferAdmin targetUserId) =
     (case find_target targetUserId (participants room) of
        None \<Rightarrow> (rooms, [])
      | Some (targetSocket, targetUser) \<Rightarrow>
          (let ps1 = AList.map_entry sid (\<lambda>p. p\<lparr>isAdmin := False\<rparr>) (participants room);
               ps2 = AList.map_entry targetSocket (\<lambda>p. p\<lparr>isAdmin := True\<rparr>) ps1
           in (AList.update roomId (room\<lparr>creator := p_name targetUser, participants := ps2\<rparr>) rooms,
               [Emit (ToRoom roomId) (AdminTransferred (p_name targetUser) (map snd ps2))])))"
| "user_action_switch rooms sid roomId room adminUser (UpdateSettings payload) =
     (case payload of
        None \<Rightarrow> (rooms, [])
      | Some p \<Rightarrow>
          (let settings1 = merge_settings (settings room) p
           in (AList.update roomId (room\<lparr>settings := settings1\<rparr>) rooms,
               [Emit (ToRoom roomId) (RoomSettingsUpdated settings1)])))"
| "user_action_switch rooms sid roomId room adminUser OtherUserAction = (rooms, [])"

definition user_action ::
  "server \<Rightarrow> socket_id \<Rightarrow> room_id \<Rightarrow> user_act \<Rightarrow> server \<times> effect list" where
  "user_action rooms sid roomId act =
     (case map_of rooms roomId of
        None \<Rightarrow> (rooms, [])
      | Some room \<Rightarrow>
          (case map_of (participants room) sid of
             None \<Rightarrow> (rooms, [])
           | Some adminUser \<Rightarrow>
               if \<not> isAdmin adminUser
               then (rooms,
                     [Emit (ToSocket sid) (PermissionDenied ''Only admins can perform this action'')])
               else user_action_switch rooms sid roomId room adminUser act))"

text \<open>In \<open>WebSocketManager\<close> the guard is \<open>!adminUser?.isAdmin\<close> on a room that exists.\<close>

definition ws_user_action ::
  "server \<Rightarrow> socket_id \<Rightarrow> room_id \<Rightarrow> user_act \<Rightarrow> server \<times> effect list" where
  "ws_user_action rooms sid roomId act =
     (case map_of rooms roomId of
        None \<Rightarrow> (rooms, [])
      | Some room \<Rightarrow>
          (case map_of (participants room) sid of
             None \<Rightarrow> (rooms,
                       [Emit (ToSocket sid) (PermissionDenied ''Only admins can perform this action'')])
           | Some adminUser \<Rightarrow>
               if \<not> isAdmin adminUser
               then (rooms,
                     [Emit (ToSocket sid) (PermissionDenied ''Only admins can perform this action'')])
               else user_action_switch rooms sid roomId room adminUser act))"

definition close_room :: "server \<Rightarrow> socket_id \<Rightarrow> room_id \<Rightarrow> server \<times> effect list" where
  "close_room rooms sid roomId =
     (case map_of rooms roomId of
        None \<Rightarrow> (rooms, [])
      | Some room \<Rightarrow>
          (case map_of (participants room) sid of
             None \<Rightarrow> (rooms, [])
           | Some user \<Rightarrow>
               if \<not> isAdmin user
               then (rooms,
                     [Emit (ToSocket sid) (PermissionDenied ''Only admins can close the room'')])
               else (AList.delete roomId rooms,
                     [Emit (ToRoom roomId) (RoomClosed (''Room closed by '' @ p_name user))])))"

section \<open>Reachable tables and the admin count\<close>

definition admin_count :: "room \<Rightarrow> nat" where
  "admin_count room = length (filter (\<lambda>(sockId, p). isAdmin p) (participants room))"

definition single_admin :: "server \<Rightarrow> bool" where
  "single_admin rooms = list_all (\<lambda>(roomId, room). admin_count room \<le> 1) rooms"

text \<open>
  The slots of a room that a join leaves in place: those that remain once the joiner's
  old connection is removed and that belong to another socket. The admins among them
  are the admins the joiner would have beside her.
\<close>

definition other_admins ::
  "socket_id \<Rightarrow> join_user \<Rightarrow> (socket_id \<times> participant) list \<Rightarrow> (socket_id \<times> participant) list" where
  "other_admins sid user ps =
     filter (\<lambda>(sockId, p). isAdmin p) (AList.delete sid (remove_old_connection sid user ps))"

text \<open>A join is accepted when it passes the validation and the capacity check.\<close>

definition join_accepted :: "server \<Rightarrow> room_id \<Rightarrow> join_user \<Rightarrow> bool" where
  "join_accepted rooms roomId user =
     (roomId \<noteq> [] \<and> u_name user \<noteq> []
      \<and> (case map_of rooms roomId of
            None \<Rightarrow> True
          | Some room \<Rightarrow> int (length (participants room)) < maxParticipants (settings room)))"

text \<open>
  A join is a rival one when it asks for the admin flag, is accepted, and finds an
  admin among the other slots of the room. Any other join is unrivalled: one that does
  not ask for the flag, one that is turned away, one into a room that is unknown, empty
  or without an admin, and a reconnection of the admin herself, on her own socket or on
  a new one.
\<close>

definition unrivalled_join :: "server \<Rightarrow> socket_id \<Rightarrow> room_id \<Rightarrow> join_user \<Rightarrow> bool" where
  "unrivalled_join rooms sid roomId user =
     (\<not> (u_isAdmin user \<and> join_accepted rooms roomId user
         \<and> (case map_of rooms roomId of
               None \<Rightarrow> False
             | Some room \<Rightarrow> other_admins sid user (participants room) \<noteq> [])))"

text \<open>
  A room is tidy when its participant map has unique keys, as every \<open>Map\<close> has, and
  at most one admin slot.
\<close>

definition tidy_room :: "room \<Rightarrow> bool" where
  "tidy_room room = (distinct (map fst (participants room)) \<and> admin_count room \<le> 1)"

definition tidy :: "server \<Rightarrow> bool" where
  "tidy rooms = list_all (\<lambda>(roomId, room). tidy_room room) rooms"

text \<open>
  The tables the stand-alone server can be in: it starts empty, and every handler
  carries it on; rival joins are left out.
\<close>

inductive reachable :: "server \<Rightarrow> bool" where
  start: "reachable []"
| join: "reachable rooms \<Longrightarrow> unrivalled_join rooms sid roomId user
         \<Longrightarrow> reachable (fst (join_room rooms sid roomId user now))"
| leave: "reachable rooms \<Longrightarrow> reachable (fst (disconnect rooms sid))"
| manage: "reachable rooms \<Longrightarrow> reachable (fst (user_action rooms sid roomId uact))"
| control: "reachable rooms \<Longrightarrow> reachable (fst (playback_control rooms sid roomId act now))"
| sync: "reachable rooms \<Longrightarrow> reachable (fst (request_sync rooms sid roomId now))"
| chat: "reachable rooms
         \<Longrightarrow> reachable (fst (send_message rooms sid roomId msg sender newId renderedTime))"
| enqueue: "reachable rooms \<Longrightarrow> reachable (fst (add_song rooms sid roomId req now))"
| close: "reachable rooms \<Longrightarrow> reachable (fst (close_room rooms sid roomId))"

section \<open>Observations and sample tables\<close>

text \<open>What an observer reads off the table: a room's stored position, its playback state,
  its participant map, and the slot of one socket.\<close>

definition stored_time :: "server \<Rightarrow> room_id \<Rightarrow> number option" where
  "stored_time rooms roomId = map_option (currentTime \<circ> playbackState) (map_of rooms roomId)"

definition room_state :: "server \<Rightarrow> room_id \<Rightarrow> playback_state option" where
  "room_state rooms roomId = map_option playbackState (map_of rooms roomId)"

definition roster :: "server \<Rightarrow> room_id \<Rightarrow> (socket_id \<times> participant) list" where
  "roster rooms roomId = (case map_of rooms roomId of None \<Rightarrow> [] | Some room \<Rightarrow> participants room)"

definition slot :: "server \<Rightarrow> room_id \<Rightarrow> socket_id \<Rightarrow> participant option" where
  "slot rooms roomId sid =
     (case map_of rooms roomId of None \<Rightarrow> None | Some room \<Rightarrow> map_of (participants room) sid)"

text \<open>
  An effect carries a copy of a playback state when it is a \<open>sync-update\<close> whose state
  agrees with the given one in every field but \<open>currentTime\<close>.
\<close>

fun carries_copy_of :: "playback_state \<Rightarrow> effect \<Rightarrow> bool" where
  "carries_copy_of ps (Emit r (SyncUpdate ps' t)) = (ps'\<lparr>currentTime := currentTime ps\<rparr> = ps)"
| "carries_copy_of ps e = False"

text \<open>
  Two users and the tables they build: Alice opens room \<open>R\<close> on socket \<open>s1\<close> at time
  1000, Bob joins on \<open>s2\<close> at 2000; Alice hands the admin role to Bob; Alice queues one
  track; Alice seeks to 42 while paused; Alice presses play at position 0 at time 5000.
\<close>

definition alice :: join_user where
  "alice = \<lparr>u_id = ''a'', u_name = ''Alice'', u_isAdmin = False\<rparr>"

definition alice_admin :: join_user where
  "alice_admin = \<lparr>u_id = ''a'', u_name = ''Alice'', u_isAdmin = True\<rparr>"

definition bob :: join_user where
  "bob = \<lparr>u_id = ''b'', u_name = ''Bob'', u_isAdmin = False\<rparr>"

definition bob_admin :: join_user where
  "bob_admin = \<lparr>u_id = ''b'', u_name = ''Bob'', u_isAdmin = True\<rparr>"

definition fresh_state :: playback_state where
  "fresh_state =
     \<lparr>currentSong = None, isPlaying = False, currentTime = 0, volume = 1,
      playlist = [], currentIndex = - 1, serverStartTime = None,
      playbackStartTime = None, lastSyncTime = 1000\<rparr>"

definition solo :: server where
  "solo = fst (join_room [] ''s1'' ''R'' alice 1000)"

definition duo :: server where
  "duo = fst (join_room solo ''s2'' ''R'' bob 2000)"

definition handed_over :: server where
  "handed_over = fst (user_action duo ''s1'' ''R'' (TransferAdmin (Some ''b'')))"

definition tune :: song_request where
  "tune = \<lparr>n_title = ''T'', n_artist = None, n_duration = 180, n_url = ''v'', n_addedBy = ''Alice''\<rparr>"

definition one_song_state :: playback_state where
  "one_song_state =
     \<lparr>currentSong = Some \<lparr>s_id = 3000, title = ''T'', artist = None, duration = 180,
                          url = ''v'', addedBy = ''Alice'', addedAt = 3000\<rparr>,
      isPlaying = False, currentTime = 0, volume = 1,
      playlist = [\<lparr>s_id = 3000, title = ''T'', artist = None, duration = 180,
                   url = ''v'', addedBy = ''Alice'', addedAt = 3000\<rparr>],
      currentIndex = 0, serverStartTime = None,
      playbackStartTime = None, lastSyncTime = 1000\<rparr>"

definition one_song :: server where
  "one_song = fst (add_song solo ''s1'' ''R'' tune 3000)"

definition paused_at_42 :: server where
  "paused_at_42 = fst (playback_control solo ''s1'' ''R'' (Seek 42) 4000)"

definition playing_state :: playback_state where
  "playing_state =
     \<lparr>currentSong = None, isPlaying = True, currentTime = 0, volume = 1,
      playlist = [], currentIndex = - 1, serverStartTime = Some 5000,
      playbackStartTime = Some 0, lastSyncTime = 5000\<rparr>"

definition playing_from_0 :: server where
  "playing_from_0 = fst (playback_control solo ''s1'' ''R'' (Play (Some 0)) 5000)"

definition alice_slot :: participant where
  "alice_slot = \<lparr>p_id = ''a'', p_name = ''Alice'', isAdmin = True, joinedAt = 1000, isOnline = True\<rparr>"

definition bob_slot :: participant where
  "bob_slot = \<lparr>p_id = ''b'', p_name = ''Bob'', isAdmin = False, joinedAt = 2000, isOnline = True\<rparr>"

definition room_of :: "(socket_id \<times> participant) list \<Rightarrow> playback_state \<Rightarrow> room" where
  "room_of ps st =
     \<lparr>r_id = ''R'', r_name = ''Room R'', creator = ''Alice'', participants = ps, messages = [],
      playbackState = st,
      settings = \<lparr>allowGuestControl = False, maxParticipants = 50, isPublic = True,
                  requireApproval = False\<rparr>,
      createdAt = 1000, syncInterval = False\<rparr>"

section \<open>The sample tables, evaluated\<close>

lemma solo_table: "solo = [(''R'', room_of [(''s1'', alice_slot)] fresh_state)]"
  by (simp add: solo_def join_room_def alice_def new_room_def remove_old_connection_def
        find_by_user_id_def fresh_state_def room_of_def alice_slot_def Let_def)

lemma duo_table: "duo = [(''R'', room_of [(''s1'', alice_slot), (''s2'', bob_slot)] fresh_state)]"
  by (simp add: duo_def solo_table join_room_def bob_def remove_old_connection_def
        find_by_user_id_def room_of_def alice_slot_def bob_slot_def Let_def)

lemma one_song_table: "one_song = [(''R'', room_of [(''s1'', alice_slot)] one_song_state)]"
  by (simp add: one_song_def solo_table add_song_def tune_def room_of_def fresh_state_def
        one_song_state_def Let_def)

lemma paused_at_42_table:
  "paused_at_42
   = [(''R'', room_of [(''s1'', alice_slot)] (fresh_state\<lparr>currentTime := 42, lastSyncTime := 4000\<rparr>))]"
  by (simp add: paused_at_42_def solo_table playback_control_def room_of_def alice_slot_def
        fresh_state_def Let_def)

lemma playing_from_0_table: "playing_from_0 = [(''R'', room_of [(''s1'', alice_slot)] playing_state)]"
  by (simp add: playing_from_0_def solo_table playback_control_def room_of_def alice_slot_def
        fresh_state_def playing_state_def or_default_def Let_def)

lemma handed_over_table:
  "handed_over
   = [(''R'', room_of [(''s1'', alice_slot\<lparr>isAdmin := False\<rparr>), (''s2'', bob_slot\<lparr>isAdmin := True\<rparr>)]
               fresh_state
             \<lparr>creator := ''Bob''\<rparr>)]"
  by (simp add: handed_over_def duo_table user_action_def find_target_def find_by_user_id_def
        room_of_def alice_slot_def bob_slot_def Let_def)

lemma reachable_solo: "reachable solo"
  unfolding solo_def
  by (rule reachable.join [OF reachable.start]) (simp add: unrivalled_join_def alice_def)

lemma reachable_duo: "reachable duo"
  unfolding duo_def
  by (rule reachable.join [OF reachable_solo]) (simp add: unrivalled_join_def bob_def)

lemma reachable_handed_over: "reachable handed_over"
  unfolding handed_over_def by (rule reachable.manage [OF reachable_duo])

section \<open>Playback control: what the handlers return\<close>

lemma playback_control_denied:
  "map_of rooms roomId = Some r \<Longrightarrow> map_of (participants r) sid = Some u \<Longrightarrow> \<not> isAdmin u
   \<Longrightarrow> \<not> allowGuestControl (settings r)
   \<Longrightarrow> playback_control rooms sid roomId act t
       = (rooms, [Emit (ToSocket sid) (PermissionDenied ''Only admins can control playback'')])"
  by (simp add: playback_control_def)

lemma playback_control_allowed:
  "map_of rooms roomId = Some r \<Longrightarrow> map_of (participants r) sid = Some u
   \<Longrightarrow> isAdmin u \<or> allowGuestControl (settings r)
   \<Longrightarrow> playback_control rooms sid roomId act t
       = (AList.update roomId (r\<lparr>playbackState := apply_action act t (playbackState r)\<rparr>) rooms,
          [Emit (ToRoom roomId) (PlaybackStateChanged (apply_action act t (playbackState r)) t)])"
  by (auto simp add: playback_control_def Let_def simp del: apply_action.simps)

lemma ws_playback_control_denied:
  "map_of rooms roomId = Some r \<Longrightarrow> map_of (participants r) sid = Some u \<Longrightarrow> \<not> isAdmin u
   \<Longrightarrow> \<not> allowGuestControl (settings r)
   \<Longrightarrow> ws_playback_control rooms sid roomId act t
       = (rooms, [Emit (ToSocket sid) (PermissionDenied ''Only admins can control playback'')])"
  by (simp add: ws_playback_control_def)

text \<open>
  No handler stores \<open>0\<close> as the server anchor as long as the clock never reads \<open>0\<close>:
  a stored anchor is truthy exactly when it is not \<open>null\<close>.
\<close>

lemma apply_action_anchor_nonzero:
  "t \<noteq> 0 \<Longrightarrow> serverStartTime ps \<noteq> Some 0 \<Longrightarrow> serverStartTime (apply_action act t ps) \<noteq> Some 0"
  by (cases act) (simp_all add: Let_def split: option.splits)

lemma pause_pause:
  "currentTime (apply_action Pause t2 (apply_action Pause t1 ps))
   = currentTime (apply_action Pause t1 ps)"
  by (simp add: Let_def anchored_time_def split: option.splits)

lemma pause_twice_server:
  "stored_time (fst (playback_control (fst (playback_control rooms sid roomId Pause t1))
                       sid roomId Pause t2)) roomId
   = stored_time (fst (playback_control rooms sid roomId Pause t1)) roomId"
proof (cases "map_of rooms roomId")
  case None
  then show ?thesis by (simp add: playback_control_def)
next
  case room: (Some r)
  show ?thesis
  proof (cases "map_of (participants r) sid")
    case None
    with room show ?thesis by (simp add: playback_control_def)
  next
    case (Some u)
    show ?thesis
    proof (cases "\<not> isAdmin u \<and> \<not> allowGuestControl (settings r)")
      case True
      with Some room show ?thesis by (simp add: playback_control_def)
    next
      case False
      with Some room show ?thesis
        by (simp add: playback_control_def stored_time_def update_conv' Let_def pause_pause
              del: apply_action.simps)
    qed
  qed
qed

lemma pause_twice_ws:
  "stored_time (fst (ws_playback_control (fst (ws_playback_control rooms sid roomId Pause t1))
                       sid roomId Pause t2)) roomId
   = stored_time (fst (ws_playback_control rooms sid roomId Pause t1)) roomId"
proof (cases "map_of rooms roomId")
  case None
  then show ?thesis by (simp add: ws_playback_control_def)
next
  case (Some r)
  show ?thesis
  proof (cases "\<not> (case map_of (participants r) sid of None \<Rightarrow> False | Some user \<Rightarrow> isAdmin user)
             \<and> \<not> allowGuestControl (settings r)")
    case True
    with Some show ?thesis by (simp add: ws_playback_control_def)
  next
    case False
    with Some show ?thesis
      by (simp add: ws_playback_control_def stored_time_def update_conv' Let_def pause_pause
            del: apply_action.simps)
  qed
qed

lemma apply_action_boundary:
  "(act = Next \<and> currentIndex ps = int (length (playlist ps)) - 1)
   \<or> (act = Previous \<and> currentIndex ps = 0)
   \<Longrightarrow> apply_action act t ps = ps"
  by auto

text \<open>
  C2, as amended. A \<open>next\<close> at the last playlist index and a \<open>previous\<close> at index 0,
  from a requester who passes the permission gate, leave the whole table (and so the
  room's entire playback state) unchanged; but the handler still emits
  \<open>playback-state-changed\<close>, carrying the unchanged state and the server time, to the
  room. Both implementations behave so.
\<close>

theorem boundary_skip_unchanged_but_broadcast:
  assumes "map_of rooms roomId = Some room"
    and "map_of (participants room) sid = Some user"
    and "isAdmin user \<or> allowGuestControl (settings room)"
    and "(act = Next \<and> currentIndex (playbackState room)
                        = int (length (playlist (playbackState room))) - 1)
         \<or> (act = Previous \<and> currentIndex (playbackState room) = 0)"
  shows "playback_control rooms sid roomId act now
           = (rooms, [Emit (ToRoom roomId) (PlaybackStateChanged (playbackState room) now)])
       \<and> ws_playback_control rooms sid roomId act now
           = (rooms, [Emit (ToRoom roomId) (PlaybackStateChanged (playbackState room) now)])"
proof -
  have same: "apply_action act now (playbackState room) = playbackState room"
    using assms(4) by (rule apply_action_boundary)
  have triv: "AList.update roomId room rooms = rooms"
    using assms(1) by (rule update_triv)
  have np: "\<not> (case act of Play c \<Rightarrow> True | _ \<Rightarrow> False)" "act \<noteq> Pause"
    using assms(4) by auto
  have "playback_control rooms sid roomId act now
           = (rooms, [Emit (ToRoom roomId) (PlaybackStateChanged (playbackState room) now)])"
    using assms(1-3) by (simp add: playback_control_allowed same triv del: apply_action.simps)
  moreover have "ws_playback_control rooms sid roomId act now
           = (rooms, [Emit (ToRoom roomId) (PlaybackStateChanged (playbackState room) now)])"
    using assms(1-3) np unfolding ws_playback_control_def
    by (auto simp add: same triv Let_def simp del: apply_action.simps)
  ultimately show ?thesis by simp
qed

theorem boundary_skip_unchanged_but_broadcast_witness:
  "playback_control one_song ''s1'' ''R'' Next 7000
     = (one_song, [Emit (ToRoom ''R'') (PlaybackStateChanged one_song_state 7000)])
   \<and> ws_playback_control one_song ''s1'' ''R'' Next 7000
     = (one_song, [Emit (ToRoom ''R'') (PlaybackStateChanged one_song_state 7000)])"
  using boundary_skip_unchanged_but_broadcast
          [of one_song "''R''" "room_of [(''s1'', alice_slot)] one_song_state" "''s1''" alice_slot
              Next 7000]
  by (simp add: one_song_table room_of_def alice_slot_def one_song_state_def)

text \<open>
  C2, as stated, fails: with one track queued, index 0 is both the first and the last
  index; a \<open>next\<close> and a \<open>previous\<close> there each leave the table as it was and each
  broadcast \<open>playback-state-changed\<close> to the room, in both implementations.
\<close>

theorem boundary_skip_still_broadcasts:
  "room_state one_song ''R'' = Some one_song_state
   \<and> currentIndex one_song_state = int (length (playlist one_song_state)) - 1
   \<and> currentIndex one_song_state = 0
   \<and> playback_control one_song ''s1'' ''R'' Next 7000
       = (one_song, [Emit (ToRoom ''R'') (PlaybackStateChanged one_song_state 7000)])
   \<and> playback_control one_song ''s1'' ''R'' Previous 7000
       = (one_song, [Emit (ToRoom ''R'') (PlaybackStateChanged one_song_state 7000)])
   \<and> ws_playback_control one_song ''s1'' ''R'' Next 7000
       = (one_song, [Emit (ToRoom ''R'') (PlaybackStateChanged one_song_state 7000)])
   \<and> ws_playback_control one_song ''s1'' ''R'' Previous 7000
       = (one_song, [Emit (ToRoom ''R'') (PlaybackStateChanged one_song_state 7000)])"
  by (simp add: one_song_table playback_control_def ws_playback_control_def room_state_def
        room_of_def alice_slot_def one_song_state_def Let_def)

text \<open>
  C3 fails on the code. The room is paused with stored position 42; the admin sends
  \<open>play\<close> with \<open>payload.currentTime = 0\<close>. The payload supplies a position, yet the
  anchored position becomes the stored 42, not 0: \<open>payload?.currentTime || ...\<close>
  treats the supplied \<open>0\<close> as absent. Both implementations behave so.
\<close>

theorem play_with_zero_payload_uses_stored_position:
  "stored_time paused_at_42 ''R'' = Some 42
   \<and> map_option playbackStartTime
         (room_state (fst (playback_control paused_at_42 ''s1'' ''R'' (Play (Some 0)) 9000)) ''R'')
       = Some (Some 42)
   \<and> map_option playbackStartTime
         (room_state (fst (ws_playback_control paused_at_42 ''s1'' ''R'' (Play (Some 0)) 9000)) ''R'')
       = Some (Some 42)"
  by (simp add: paused_at_42_table playback_control_def ws_playback_control_def room_state_def
        stored_time_def or_default_def fresh_state_def room_of_def alice_slot_def Let_def)

text \<open>
  C6. For every table, room, requester and pair of clock readings, a second \<open>pause\<close>
  right after a first leaves the room's stored \<open>currentTime\<close> where the first put it,
  in both implementations.
\<close>

theorem pause_twice_same_position:
  "stored_time (fst (playback_control (fst (playback_control rooms sid roomId Pause t1))
                       sid roomId Pause t2)) roomId
     = stored_time (fst (playback_control rooms sid roomId Pause t1)) roomId
   \<and> stored_time (fst (ws_playback_control (fst (ws_playback_control rooms sid roomId Pause t1))
                          sid roomId Pause t2)) roomId
     = stored_time (fst (ws_playback_control rooms sid roomId Pause t1)) roomId"
  by (simp only: pause_twice_server pause_twice_ws)

theorem pause_twice_same_position_witness:
  "stored_time (fst (playback_control (fst (playback_control playing_from_0 ''s1'' ''R'' Pause 8000))
                       ''s1'' ''R'' Pause 9500)) ''R''
     = Some 3
   \<and> stored_time (fst (ws_playback_control (fst (ws_playback_control playing_from_0 ''s1'' ''R'' Pause 8000))
                          ''s1'' ''R'' Pause 9500)) ''R''
     = Some 3"
proof -
  have once: "stored_time (fst (playback_control playing_from_0 ''s1'' ''R'' Pause 8000)) ''R'' = Some 3"
    by (simp add: playing_from_0_table playback_control_def stored_time_def room_of_def
          alice_slot_def playing_state_def anchored_time_def Let_def)
  have ws_once: "stored_time (fst (ws_playback_control playing_from_0 ''s1'' ''R'' Pause 8000)) ''R'' = Some 3"
    by (simp add: playing_from_0_table ws_playback_control_def stored_time_def room_of_def
          alice_slot_def playing_state_def anchored_time_def Let_def)
  show ?thesis
    using pause_twice_same_position [of playing_from_0 "''s1''" "''R''" 8000 9500]
    by (simp only: once ws_once)
qed

text \<open>
  C7. A \<open>playback-control\<close> request from a participant whose slot is not admin, in a
  room whose \<open>allowGuestControl\<close> is off, produces exactly one effect, the
  \<open>permission-denied\<close> event on the requester's own socket, and returns the table
  unchanged, whatever the action; in both implementations.
\<close>

theorem playback_denied_only_to_requester:
  assumes "map_of rooms roomId = Some room"
    and "map_of (participants room) sid = Some user"
    and "\<not> isAdmin user"
    and "\<not> allowGuestControl (settings room)"
  shows "playback_control rooms sid roomId act now
           = (rooms, [Emit (ToSocket sid) (PermissionDenied ''Only admins can control playback'')])
       \<and> ws_playback_control rooms sid roomId act now
           = (rooms, [Emit (ToSocket sid) (PermissionDenied ''Only admins can control playback'')])"
  using assms by (simp add: playback_control_denied ws_playback_control_denied)

theorem playback_denied_only_to_requester_witness:
  "playback_control duo ''s2'' ''R'' (Seek 10) 3000
     = (duo, [Emit (ToSocket ''s2'') (PermissionDenied ''Only admins can control playback'')])
   \<and> ws_playback_control duo ''s2'' ''R'' (Seek 10) 3000
     = (duo, [Emit (ToSocket ''s2'') (PermissionDenied ''Only admins can control playback'')])"
  by (rule playback_denied_only_to_requester
            [where room = "room_of [(''s1'', alice_slot), (''s2'', bob_slot)] fresh_state"
               and user = bob_slot])
     (simp_all add: duo_table room_of_def bob_slot_def)

section \<open>Sync requests\<close>

text \<open>
  C8. While the room is playing with both anchors set (a set server anchor being a
  clock reading, hence not \<open>0\<close>), \<open>request-sync\<close> answers the requester with a
  \<open>sync-update\<close> whose \<open>currentTime\<close> is \<open>playbackStartTime\<close> plus the server time
  elapsed since \<open>serverStartTime\<close> divided by 1000; while the room is not playing the
  answer carries the stored \<open>currentTime\<close>.
\<close>

theorem request_sync_position:
  assumes "map_of rooms roomId = Some room"
  shows "(isPlaying (playbackState room) \<and> serverStartTime (playbackState room) = Some s \<and> s \<noteq> 0
            \<and> playbackStartTime (playbackState room) = Some p
          \<longrightarrow> snd (request_sync rooms sid roomId now)
               = [Emit (ToSocket sid)
                    (SyncUpdate ((playbackState room)\<lparr>currentTime := p + (now - s) / 1000\<rparr>) now)])
       \<and> (\<not> isPlaying (playbackState room)
          \<longrightarrow> snd (request_sync rooms sid roomId now)
               = [Emit (ToSocket sid) (SyncUpdate (playbackState room) now)])"
  using assms by (simp add: request_sync_def anchored_time_def Let_def)

theorem request_sync_position_witness:
  "snd (request_sync playing_from_0 ''s2'' ''R'' 35000)
     = [Emit (ToSocket ''s2'') (SyncUpdate (playing_state\<lparr>currentTime := 30\<rparr>) 35000)]
   \<and> snd (request_sync paused_at_42 ''s2'' ''R'' 35000)
     = [Emit (ToSocket ''s2'')
          (SyncUpdate (fresh_state\<lparr>currentTime := 42, lastSyncTime := 4000\<rparr>) 35000)]"
  using request_sync_position
          [of playing_from_0 "''R''" "room_of [(''s1'', alice_slot)] playing_state" 5000 0 "''s2''" 35000]
        request_sync_position
          [of paused_at_42 "''R''"
              "room_of [(''s1'', alice_slot)] (fresh_state\<lparr>currentTime := 42, lastSyncTime := 4000\<rparr>)"
              0 0 "''s2''" 35000]
  by (simp add: playing_from_0_table paused_at_42_table room_of_def playing_state_def fresh_state_def)

text \<open>
  C10. \<open>request-sync\<close> and the periodic \<open>broadcastSync\<close> return the table exactly as
  they found it, so every stored field of every room's playback state is the same
  before and after; whatever they emit is a \<open>sync-update\<close> whose state is the stored
  one except for \<open>currentTime\<close>.
\<close>

theorem sync_read_only:
  "fst (request_sync rooms sid roomId now) = rooms
   \<and> fst (ws_broadcastSync rooms roomId now) = rooms
   \<and> (map_of rooms roomId = Some room
        \<longrightarrow> list_all (carries_copy_of (playbackState room))
              (snd (request_sync rooms sid roomId now) @ snd (ws_broadcastSync rooms roomId now)))"
  by (simp add: request_sync_def ws_broadcastSync_def Let_def split: option.splits)

theorem sync_read_only_witness:
  "fst (request_sync playing_from_0 ''s2'' ''R'' 35000) = playing_from_0
   \<and> fst (ws_broadcastSync playing_from_0 ''R'' 35000) = playing_from_0
   \<and> room_state playing_from_0 ''R'' = Some playing_state
   \<and> snd (request_sync playing_from_0 ''s2'' ''R'' 35000) @ snd (ws_broadcastSync playing_from_0 ''R'' 35000)
       = [Emit (ToSocket ''s2'') (SyncUpdate (playing_state\<lparr>currentTime := 30\<rparr>) 35000),
          Emit (ToRoom ''R'') (SyncUpdate (playing_state\<lparr>currentTime := 30\<rparr>) 35000)]
   \<and> list_all (carries_copy_of playing_state)
        (snd (request_sync playing_from_0 ''s2'' ''R'' 35000) @ snd (ws_broadcastSync playing_from_0 ''R'' 35000))"
proof -
  have look: "map_of playing_from_0 ''R'' = Some (room_of [(''s1'', alice_slot)] playing_state)"
    by (simp add: playing_from_0_table)
  have st: "playbackState (room_of [(''s1'', alice_slot)] playing_state) = playing_state"
    by (simp add: room_of_def)
  have emitted:
    "snd (request_sync playing_from_0 ''s2'' ''R'' 35000) @ snd (ws_broadcastSync playing_from_0 ''R'' 35000)
       = [Emit (ToSocket ''s2'') (SyncUpdate (playing_state\<lparr>currentTime := 30\<rparr>) 35000),
          Emit (ToRoom ''R'') (SyncUpdate (playing_state\<lparr>currentTime := 30\<rparr>) 35000)]"
    by (simp add: playing_from_0_table request_sync_def ws_broadcastSync_def anchored_time_def
          room_of_def playing_state_def Let_def)
  have "fst (request_sync playing_from_0 ''s2'' ''R'' 35000) = playing_from_0
      \<and> fst (ws_broadcastSync playing_from_0 ''R'' 35000) = playing_from_0
      \<and> list_all (carries_copy_of playing_state)
          (snd (request_sync playing_from_0 ''s2'' ''R'' 35000) @ snd (ws_broadcastSync playing_from_0 ''R'' 35000))"
    using sync_read_only [of playing_from_0 "''s2''" "''R''" 35000
                             "room_of [(''s1'', alice_slot)] playing_state"]
    by (simp only: look st simp_thms)
  with emitted look st show ?thesis by (simp add: room_state_def)
qed


section \<open>Membership: kick, transfer, rejoin\<close>

text \<open>
  C4 fails on the code. Alice is alone in room \<open>R\<close> and is its admin; she sends
  \<open>kick-user\<close> naming herself. The kick branch deletes her slot and stops there: the
  table still holds \<open>R\<close>, now with no participant at all. The \<open>disconnect\<close> handler,
  run on the same table instead, deletes the room.
\<close>

theorem self_kick_leaves_empty_room:
  "roster solo ''R'' = [(''s1'', alice_slot)]
   \<and> map_option participants (map_of (fst (user_action solo ''s1'' ''R'' (KickUser (Some ''a'')))) ''R'')
       = Some []
   \<and> fst (disconnect solo ''s1'') = []"
  by (simp add: solo_table roster_def user_action_def find_target_def find_by_user_id_def
        disconnect_def room_of_def alice_slot_def Let_def)

lemma find_target_absent:
  "find_by_user_id tid ps = None \<Longrightarrow> find_target (Some tid) ps = None"
  by (simp add: find_target_def)

text \<open>
  C9, as amended. A \<open>kick-user\<close> or \<open>transfer-admin\<close> from the room's admin that names
  a target identifier which no slot of the room carries is ignored in silence: no event
  goes to anybody, the calling admin included, and the table stays as it was. Both
  implementations behave so.
\<close>

theorem missing_target_ignored:
  assumes "map_of rooms roomId = Some room"
    and "map_of (participants room) sid = Some adminUser"
    and "isAdmin adminUser"
    and "find_by_user_id targetUserId (participants room) = None"
    and "uact = KickUser (Some targetUserId) \<or> uact = TransferAdmin (Some targetUserId)"
  shows "user_action rooms sid roomId uact = (rooms, [])
       \<and> ws_user_action rooms sid roomId uact = (rooms, [])"
  using assms by (auto simp add: user_action_def ws_user_action_def find_target_absent)

theorem missing_target_ignored_witness:
  "user_action duo ''s1'' ''R'' (TransferAdmin (Some ''ghost'')) = (duo, [])
   \<and> ws_user_action duo ''s1'' ''R'' (TransferAdmin (Some ''ghost'')) = (duo, [])"
  by (rule missing_target_ignored
            [where room = "room_of [(''s1'', alice_slot), (''s2'', bob_slot)] fresh_state"
               and adminUser = alice_slot and targetUserId = "''ghost''"])
     (simp_all add: duo_table room_of_def alice_slot_def bob_slot_def find_by_user_id_def)

text \<open>
  C9, as stated, fails: in the room of Alice (admin) and Bob, a kick and a transfer
  that name \<open>ghost\<close>, an identifier nobody in the room has, each produce no effect
  whatever, so nothing is reported to the calling admin.
\<close>

theorem missing_target_not_reported:
  "find_by_user_id ''ghost'' (roster duo ''R'') = None
   \<and> snd (user_action duo ''s1'' ''R'' (KickUser (Some ''ghost''))) = []
   \<and> snd (user_action duo ''s1'' ''R'' (TransferAdmin (Some ''ghost''))) = []
   \<and> snd (ws_user_action duo ''s1'' ''R'' (KickUser (Some ''ghost''))) = []
   \<and> snd (ws_user_action duo ''s1'' ''R'' (TransferAdmin (Some ''ghost''))) = []"
  by (simp add: duo_table roster_def user_action_def ws_user_action_def find_target_def
        find_by_user_id_def room_of_def alice_slot_def bob_slot_def)




lemma find_by_user_id_key:
  "find_by_user_id uid ps = Some (k, p) \<Longrightarrow> k \<in> fst ` set ps"
  unfolding find_by_user_id_def by (induction ps) (auto split: if_splits)

lemma join_room_accepted:
  assumes "roomId \<noteq> []" and "u_name user \<noteq> []"
    and "map_of rooms roomId = Some room"
    and "int (length (participants room)) < maxParticipants (settings room)"
  shows "roster (fst (join_room rooms sid roomId user now)) roomId
         = AList.update sid
             \<lparr>p_id = u_id user, p_name = u_name user,
              isAdmin = (if remove_old_connection sid user (participants room) = [] then True
                         else u_isAdmin user),
              joinedAt = now, isOnline = True\<rparr>
             (remove_old_connection sid user (participants room))"
  using assms by (simp add: join_room_def roster_def Let_def update_conv')




section \<open>At most one admin\<close>

lemma admins_delete:
  "length (filter (\<lambda>(sockId, p). isAdmin p) (AList.delete k ps))
   \<le> length (filter (\<lambda>(sockId, p). isAdmin p) ps)"
  by (induction ps) auto

lemma admins_update_plain:
  "\<not> isAdmin v \<Longrightarrow> length (filter (\<lambda>(sockId, p). isAdmin p) (AList.update k v ps))
   \<le> length (filter (\<lambda>(sockId, p). isAdmin p) ps)"
  by (induction ps) auto

lemma admins_update_alone:
  "distinct (map fst ps) \<Longrightarrow> filter (\<lambda>(sockId, p). isAdmin p) (AList.delete k ps) = []
   \<Longrightarrow> length (filter (\<lambda>(sockId, p). isAdmin p) (AList.update k v ps)) \<le> 1"
proof (induction ps)
  case Nil
  then show ?case by simp
next
  case (Cons e ps)
  obtain k' v' where e: "e = (k', v')" by (cases e)
  show ?case
  proof (cases "k' = k")
    case True
    with Cons.prems(1) have "k \<notin> fst ` set ps" by (simp add: e)
    then have "AList.delete k ps = ps" by simp
    with Cons.prems(2) True have "filter (\<lambda>(sockId, p). isAdmin p) ps = []" by (simp add: e)
    with True show ?thesis by (simp add: e)
  next
    case False
    with Cons.prems have "\<not> isAdmin v'"
      and "distinct (map fst ps)"
      and "filter (\<lambda>(sockId, p). isAdmin p) (AList.delete k ps) = []"
      by (auto simp: e split: if_splits)
    with Cons.IH False show ?thesis by (simp add: e)
  qed
qed

lemma admins_update_rival:
  "isAdmin v \<Longrightarrow> Suc (length (filter (\<lambda>(sockId, p). isAdmin p) (AList.delete k ps)))
   \<le> length (filter (\<lambda>(sockId, p). isAdmin p) (AList.update k v ps))"
proof (induction ps)
  case Nil
  then show ?case by simp
next
  case (Cons e ps)
  with admins_delete [of k ps] show ?case by (cases e) auto
qed

lemma admins_demote:
  "map_of ps k = Some u \<Longrightarrow> isAdmin u
   \<Longrightarrow> Suc (length (filter (\<lambda>(sockId, p). isAdmin p)
                   (AList.map_entry k (\<lambda>p. p\<lparr>isAdmin := False\<rparr>) ps)))
       = length (filter (\<lambda>(sockId, p). isAdmin p) ps)"
  by (induction ps) (auto split: if_splits)

lemma admins_promote_present:
  "k \<in> fst ` set ps \<Longrightarrow> filter (\<lambda>(sockId, p). isAdmin p) ps = []
   \<Longrightarrow> length (filter (\<lambda>(sockId, p). isAdmin p)
               (AList.map_entry k (\<lambda>p. p\<lparr>isAdmin := True\<rparr>) ps)) = 1"
  by (induction ps) (auto split: if_splits)

lemma admins_remove_old:
  "length (filter (\<lambda>(sockId, p). isAdmin p) (remove_old_connection sid user ps))
   \<le> length (filter (\<lambda>(sockId, p). isAdmin p) ps)"
  by (simp add: remove_old_connection_def admins_delete split: option.splits)

lemma distinct_remove_old:
  "distinct (map fst ps) \<Longrightarrow> distinct (map fst (remove_old_connection sid user ps))"
  by (simp add: remove_old_connection_def distinct_delete split: option.splits)

lemma find_target_key:
  "find_target t ps = Some (k, p) \<Longrightarrow> k \<in> fst ` set ps"
  by (auto simp: find_target_def dest: find_by_user_id_key split: option.splits if_splits)

lemma single_admin_lookup:
  "single_admin rooms \<Longrightarrow> map_of rooms k = Some r \<Longrightarrow> admin_count r \<le> 1"
  unfolding single_admin_def by (induction rooms) (auto split: if_splits)

lemma tidy_update: "tidy rooms \<Longrightarrow> tidy_room r \<Longrightarrow> tidy (AList.update k r rooms)"
  unfolding tidy_def by (induction rooms) auto

lemma tidy_delete: "tidy rooms \<Longrightarrow> tidy (AList.delete k rooms)"
  unfolding tidy_def by (induction rooms) auto

lemma tidy_lookup: "tidy rooms \<Longrightarrow> map_of rooms k = Some r \<Longrightarrow> tidy_room r"
  unfolding tidy_def by (induction rooms) (auto split: if_splits)

lemma tidy_single_admin: "tidy rooms \<Longrightarrow> single_admin rooms"
  unfolding tidy_def single_admin_def by (induction rooms) (auto simp: tidy_room_def)

lemma tidy_join:
  assumes "tidy rooms" and "unrivalled_join rooms sid roomId user"
  shows "tidy (fst (join_room rooms sid roomId user now))"
proof (cases "roomId = [] \<or> u_name user = []")
  case True
  with assms(1) show ?thesis by (simp add: join_room_def)
next
  case valid: False
  define room where
    "room = (case map_of rooms roomId of None \<Rightarrow> new_room roomId user now | Some r \<Rightarrow> r)"
  define rooms1 where
    "rooms1 = (case map_of rooms roomId of
                 None \<Rightarrow> AList.update roomId (new_room roomId user now) rooms
               | Some r \<Rightarrow> rooms)"
  define ps1 where "ps1 = remove_old_connection sid user (participants room)"
  define pd where
    "pd = \<lparr>p_id = u_id user, p_name = u_name user,
           isAdmin = (if ps1 = [] then True else u_isAdmin user), joinedAt = now, isOnline = True\<rparr>"
  have room_ok: "tidy_room room"
    using assms(1)
    by (auto simp: room_def new_room_def tidy_room_def admin_count_def dest: tidy_lookup
          split: option.splits)
  have rooms1_ok: "tidy rooms1"
    using assms(1)
    by (auto simp: rooms1_def new_room_def tidy_room_def admin_count_def intro: tidy_update
          split: option.splits)
  have after: "fst (join_room rooms sid roomId user now)
          = (if int (length (participants room)) \<ge> maxParticipants (settings room) then rooms1
             else AList.update roomId
                    (room\<lparr>creator := (if ps1 = [] then u_name user else creator room),
                          participants := AList.update sid pd ps1\<rparr>) rooms1)"
    using valid
    by (simp add: join_room_def Let_def rooms1_def room_def ps1_def pd_def split: option.splits)
  show ?thesis
  proof (cases "int (length (participants room)) \<ge> maxParticipants (settings room)")
    case True
    with after rooms1_ok show ?thesis by simp
  next
    case space: False
    have dist: "distinct (map fst ps1)"
      using room_ok unfolding ps1_def tidy_room_def by (simp add: distinct_remove_old)
    have count: "length (filter (\<lambda>(sockId, p). isAdmin p) (AList.update sid pd ps1)) \<le> 1"
    proof (cases "isAdmin pd")
      case False
      then have "length (filter (\<lambda>(sockId, p). isAdmin p) (AList.update sid pd ps1))
          \<le> length (filter (\<lambda>(sockId, p). isAdmin p) ps1)"
        by (rule admins_update_plain)
      also have "\<dots> \<le> length (filter (\<lambda>(sockId, p). isAdmin p) (participants room))"
        unfolding ps1_def by (rule admins_remove_old)
      also have "\<dots> \<le> 1" using room_ok by (simp add: tidy_room_def admin_count_def)
      finally show ?thesis .
    next
      case True
      show ?thesis
      proof (cases "ps1 = []")
        case True
        then show ?thesis by simp
      next
        case False
        with \<open>isAdmin pd\<close> have asks: "u_isAdmin user" by (simp add: pd_def)
        from False obtain r where r: "map_of rooms roomId = Some r"
          by (cases "map_of rooms roomId")
             (auto simp: ps1_def room_def new_room_def remove_old_connection_def
                find_by_user_id_def)
        then have "room = r" by (simp add: room_def)
        with r space valid have "join_accepted rooms roomId user"
          by (simp add: join_accepted_def)
        with assms(2) asks r \<open>room = r\<close>
        have "filter (\<lambda>(sockId, p). isAdmin p) (AList.delete sid ps1) = []"
          by (simp add: unrivalled_join_def other_admins_def ps1_def)
        with dist show ?thesis by (rule admins_update_alone)
      qed
    qed
    have "tidy_room (room\<lparr>creator := c, participants := AList.update sid pd ps1\<rparr>)" for c
      using dist count by (simp add: tidy_room_def admin_count_def distinct_update)
    with after space rooms1_ok show ?thesis
      by (simp add: tidy_update)
  qed
qed

lemma tidy_disconnect_loop:
  "tidy rooms \<Longrightarrow> tidy rest \<Longrightarrow> tidy (fst (disconnect_loop rest sid rooms))"
proof (induction rest)
  case Nil
  then show ?case by simp
next
  case (Cons e rest)
  obtain roomId room where e: "e = (roomId, room)" by (cases e)
  from Cons.prems(2) have room_ok: "tidy_room room" and rest_ok: "tidy rest"
    by (simp_all add: e tidy_def)
  show ?case
  proof (cases "map_of (participants room) sid")
    case None
    with Cons.IH [OF Cons.prems(1) rest_ok] show ?thesis by (simp add: e)
  next
    case (Some user)
    have "tidy_room (room\<lparr>participants := AList.delete sid (participants room)\<rparr>)"
      using room_ok admins_delete [of sid "participants room"]
      by (simp add: tidy_room_def admin_count_def distinct_delete)
    with Some Cons.prems(1) show ?thesis
      by (auto simp: e Let_def intro: tidy_update tidy_delete)
  qed
qed

lemma tidy_disconnect: "tidy rooms \<Longrightarrow> tidy (fst (disconnect rooms sid))"
  by (simp add: disconnect_def tidy_disconnect_loop)

text \<open>
  The two writes of \<open>transfer-admin\<close>, taken together: in a tidy room whose caller is
  admin, the caller is the one admin before, and the target is the one admin after.
\<close>

lemma transfer_one_admin:
  assumes "tidy_room room"
    and "map_of (participants room) sid = Some adminUser" and "isAdmin adminUser"
    and "k \<in> fst ` set (participants room)"
  shows "admin_count room = 1"
    and "length (filter (\<lambda>(sockId, p). isAdmin p)
           (AList.map_entry k (\<lambda>p. p\<lparr>isAdmin := True\<rparr>)
              (AList.map_entry sid (\<lambda>p. p\<lparr>isAdmin := False\<rparr>) (participants room)))) = 1"
proof -
  let ?demoted = "AList.map_entry sid (\<lambda>p. p\<lparr>isAdmin := False\<rparr>) (participants room)"
  have suc: "Suc (length (filter (\<lambda>(sockId, p). isAdmin p) ?demoted)) = admin_count room"
    using admins_demote [OF assms(2,3)] by (simp only: admin_count_def)
  moreover have "admin_count room \<le> 1" using assms(1) by (simp add: tidy_room_def)
  ultimately show "admin_count room = 1" by simp
  with suc have none: "filter (\<lambda>(sockId, p). isAdmin p) ?demoted = []" by simp
  have "k \<in> fst ` set ?demoted" using assms(4) by (simp only: dom_map_entry)
  then show "length (filter (\<lambda>(sockId, p). isAdmin p)
           (AList.map_entry k (\<lambda>p. p\<lparr>isAdmin := True\<rparr>) ?demoted)) = 1"
    using none by (rule admins_promote_present)
qed

lemma tidy_switch:
  assumes "tidy rooms" and "map_of rooms roomId = Some room"
    and "map_of (participants room) sid = Some adminUser" and "isAdmin adminUser"
  shows "tidy (fst (user_action_switch rooms sid roomId room adminUser uact))"
proof -
  have room_ok: "tidy_room room"
    using assms(1,2) by (rule tidy_lookup)
  show ?thesis
  proof (cases uact)
    case (KickUser t)
    have "tidy_room (room\<lparr>participants := AList.delete k (participants room)\<rparr>)" for k
      using room_ok admins_delete [of k "participants room"]
      by (simp add: tidy_room_def admin_count_def distinct_delete)
    with assms(1) show ?thesis
      by (auto simp: KickUser Let_def intro: tidy_update split: option.splits)
  next
    case (TransferAdmin t)
    have "tidy_room (room\<lparr>creator := c, participants :=
              AList.map_entry k (\<lambda>p. p\<lparr>isAdmin := True\<rparr>)
                (AList.map_entry sid (\<lambda>p. p\<lparr>isAdmin := False\<rparr>) (participants room))\<rparr>)"
      if "find_target t (participants room) = Some (k, p)" for c k p
      using transfer_one_admin(2) [OF room_ok assms(3,4) find_target_key [OF that]] room_ok
      by (simp add: tidy_room_def admin_count_def distinct_map_entry)
    with assms(1) show ?thesis
      by (auto simp: TransferAdmin Let_def intro: tidy_update split: option.splits)
  next
    case (UpdateSettings p)
    have "tidy_room (room\<lparr>settings := s\<rparr>)" for s
      using room_ok by (simp add: tidy_room_def admin_count_def)
    with assms(1) show ?thesis
      by (auto simp: UpdateSettings Let_def intro: tidy_update split: option.splits)
  next
    case OtherUserAction
    with assms(1) show ?thesis by simp
  qed
qed

lemma tidy_user_action: "tidy rooms \<Longrightarrow> tidy (fst (user_action rooms sid roomId uact))"
  by (auto simp: user_action_def tidy_switch split: option.splits)

lemma tidy_playback_control:
  assumes "tidy rooms"
  shows "tidy (fst (playback_control rooms sid roomId act now))"
proof -
  have "tidy_room (room\<lparr>playbackState := s\<rparr>)" if "map_of rooms roomId = Some room" for room s
    using tidy_lookup [OF assms that] by (simp add: tidy_room_def admin_count_def)
  with assms show ?thesis
    by (auto simp: playback_control_def Let_def intro: tidy_update split: option.splits
          simp del: apply_action.simps)
qed

lemma tidy_send_message:
  assumes "tidy rooms"
  shows "tidy (fst (send_message rooms sid roomId msg sender newId renderedTime))"
proof -
  have "tidy_room (room\<lparr>messages := s\<rparr>)" if "map_of rooms roomId = Some room" for room s
    using tidy_lookup [OF assms that] by (simp add: tidy_room_def admin_count_def)
  with assms show ?thesis
    by (auto simp: send_message_def Let_def intro: tidy_update split: option.splits)
qed

lemma tidy_add_song:
  assumes "tidy rooms"
  shows "tidy (fst (add_song rooms sid roomId req now))"
proof -
  have "tidy_room (room\<lparr>playbackState := s\<rparr>)" if "map_of rooms roomId = Some room" for room s
    using tidy_lookup [OF assms that] by (simp add: tidy_room_def admin_count_def)
  with assms show ?thesis
    by (auto simp: add_song_def Let_def intro: tidy_update split: option.splits)
qed

lemma tidy_close_room: "tidy rooms \<Longrightarrow> tidy (fst (close_room rooms sid roomId))"
  by (auto simp: close_room_def tidy_delete split: option.splits)

lemma reachable_tidy: "reachable rooms \<Longrightarrow> tidy rooms"
proof (induction rule: reachable.induct)
  case start
  show ?case by (simp add: tidy_def)
next
  case (join rooms sid roomId user now)
  then show ?case by (simp add: tidy_join)
next
  case (leave rooms sid)
  then show ?case by (simp add: tidy_disconnect)
next
  case (manage rooms sid roomId uact)
  then show ?case by (simp add: tidy_user_action)
next
  case (control rooms sid roomId act now)
  then show ?case by (simp add: tidy_playback_control)
next
  case (sync rooms sid roomId now)
  then show ?case by (simp add: request_sync_def Let_def split: option.splits)
next
  case (chat rooms sid roomId msg sender newId renderedTime)
  then show ?case by (simp add: tidy_send_message)
next
  case (enqueue rooms sid roomId req now)
  then show ?case by (simp add: tidy_add_song)
next
  case (close rooms sid roomId)
  then show ?case by (simp add: tidy_close_room)
qed

text \<open>A \<open>transfer-admin\<close> request, whoever sends it, leaves the number of admins of every room as it was.\<close>

lemma transfer_keeps_admin_count:
  assumes "tidy rooms"
  shows "map_option admin_count
           (map_of (fst (user_action rooms sid roomId (TransferAdmin targetUserId))) rid)
         = map_option admin_count (map_of rooms rid)"
proof (cases "map_of rooms roomId")
  case None
  then show ?thesis by (simp add: user_action_def)
next
  case room: (Some room)
  show ?thesis
  proof (cases "map_of (participants room) sid")
    case None
    with room show ?thesis by (simp add: user_action_def)
  next
    case caller: (Some adminUser)
    show ?thesis
    proof (cases "isAdmin adminUser")
      case False
      with room caller show ?thesis by (simp add: user_action_def)
    next
      case admin: True
      show ?thesis
      proof (cases "find_target targetUserId (participants room)")
        case None
        with room caller admin show ?thesis by (simp add: user_action_def)
      next
        case (Some target)
        obtain k p where target: "target = (k, p)" by (cases target)
        have room_ok: "tidy_room room" using assms room by (rule tidy_lookup)
        have key: "k \<in> fst ` set (participants room)"
          using Some unfolding target by (rule find_target_key)
        note one = transfer_one_admin [OF room_ok caller admin key]
        from room caller admin Some show ?thesis
          by (simp add: user_action_def target Let_def update_conv' admin_count_def one(2)
                one(1) [unfolded admin_count_def] room)
      qed
    qed
  qed
qed

text \<open>
  The proviso on joins cannot be relaxed: a rival join, whatever the table, leaves its
  room with more than one admin.
\<close>

lemma rival_join_second_admin:
  assumes "\<not> unrivalled_join rooms sid roomId user"
  shows "\<not> single_admin (fst (join_room rooms sid roomId user now))"
proof
  assume single: "single_admin (fst (join_room rooms sid roomId user now))"
  let ?after = "fst (join_room rooms sid roomId user now)"
  from assms obtain room where asks: "u_isAdmin user"
    and valid: "roomId \<noteq> []" "u_name user \<noteq> []"
    and room: "map_of rooms roomId = Some room"
    and space: "int (length (participants room)) < maxParticipants (settings room)"
    and rival: "other_admins sid user (participants room) \<noteq> []"
    by (auto simp: unrivalled_join_def join_accepted_def split: option.splits)
  let ?ps1 = "remove_old_connection sid user (participants room)"
  let ?pd = "\<lparr>p_id = u_id user, p_name = u_name user,
              isAdmin = (if ?ps1 = [] then True else u_isAdmin user),
              joinedAt = now, isOnline = True\<rparr>"
  have ros: "roster ?after roomId = AList.update sid ?pd ?ps1"
    using valid room space by (rule join_room_accepted)
  then have "roster ?after roomId \<noteq> []" by simp
  with ros obtain room' where after: "map_of ?after roomId = Some room'"
    and ps: "participants room' = AList.update sid ?pd ?ps1"
    by (cases "map_of ?after roomId") (simp_all add: roster_def)
  have "isAdmin ?pd" using asks by simp
  then have "Suc (length (filter (\<lambda>(sockId, p). isAdmin p) (AList.delete sid ?ps1)))
      \<le> length (filter (\<lambda>(sockId, p). isAdmin p) (AList.update sid ?pd ?ps1))"
    by (rule admins_update_rival)
  moreover have "0 < length (filter (\<lambda>(sockId, p). isAdmin p) (AList.delete sid ?ps1))"
    using rival by (simp add: other_admins_def)
  ultimately have "2 \<le> admin_count room'"
    by (simp only: admin_count_def ps)
  moreover have "admin_count room' \<le> 1"
    using single after by (rule single_admin_lookup)
  ultimately show False by simp
qed

text \<open>
  C1, as amended. In every table the stand-alone server can reach from the empty one by
  any sequence of its handlers (join, disconnect, kick, transfer-admin, and the rest),
  provided that no join is a rival one (none asks for the admin flag, and is accepted,
  while another slot of the room is admin), every room has at most one slot with
  \<open>isAdmin = true\<close>. A \<open>transfer-admin\<close> is one step of the handler, so no table
  between its two writes is ever observed; that step leaves the number of admins of
  every room as it was, and when the caller is the room's admin the room has exactly
  one admin after it: never none, never two.
\<close>

theorem reachable_single_admin:
  assumes "reachable rooms"
  shows "single_admin rooms
       \<and> map_option admin_count
           (map_of (fst (user_action rooms sid roomId (TransferAdmin targetUserId))) rid)
         = map_option admin_count (map_of rooms rid)
       \<and> (slot rooms roomId sid = Some adminUser \<and> isAdmin adminUser
          \<longrightarrow> map_option admin_count
                (map_of (fst (user_action rooms sid roomId (TransferAdmin targetUserId))) roomId)
              = Some 1)"
proof -
  have t: "tidy rooms" using assms by (rule reachable_tidy)
  have keep: "map_option admin_count
           (map_of (fst (user_action rooms sid roomId (TransferAdmin targetUserId))) rid)
         = map_option admin_count (map_of rooms rid)" for rid
    using t by (rule transfer_keeps_admin_count)
  have one: "map_option admin_count (map_of rooms roomId) = Some 1"
    if "slot rooms roomId sid = Some adminUser" and "isAdmin adminUser"
  proof -
    from that(1) obtain room where room: "map_of rooms roomId = Some room"
      and caller: "map_of (participants room) sid = Some adminUser"
      by (auto simp: slot_def split: option.splits)
    have "Suc 0 \<le> admin_count room"
      using admins_demote [OF caller that(2)] by (simp only: admin_count_def)
    moreover have "admin_count room \<le> 1"
      using tidy_lookup [OF t room] by (simp add: tidy_room_def)
    ultimately show ?thesis by (simp add: room)
  qed
  show ?thesis
  proof (intro conjI impI)
    show "single_admin rooms" using t by (rule tidy_single_admin)
    show "map_option admin_count
            (map_of (fst (user_action rooms sid roomId (TransferAdmin targetUserId))) rid)
          = map_option admin_count (map_of rooms rid)"
      by (rule keep)
    assume "slot rooms roomId sid = Some adminUser \<and> isAdmin adminUser"
    then have "map_option admin_count (map_of rooms roomId) = Some 1"
      by (intro one) simp_all
    then show "map_option admin_count
                 (map_of (fst (user_action rooms sid roomId (TransferAdmin targetUserId))) roomId)
               = Some 1"
      by (simp only: keep)
  qed
qed

theorem reachable_single_admin_witness:
  "reachable duo \<and> single_admin duo
   \<and> map_option admin_count (map_of duo ''R'') = Some 1
   \<and> map_option isAdmin (slot duo ''R'' ''s1'') = Some True
   \<and> map_option admin_count
        (map_of (fst (user_action duo ''s1'' ''R'' (TransferAdmin (Some ''b'')))) ''R'') = Some 1"
proof -
  have caller: "slot duo ''R'' ''s1'' = Some alice_slot" and admin: "isAdmin alice_slot"
    by (simp_all add: duo_table slot_def room_of_def alice_slot_def)
  have before: "map_option admin_count (map_of duo ''R'') = Some 1"
    by (simp add: duo_table admin_count_def room_of_def alice_slot_def bob_slot_def)
  from reachable_single_admin [OF reachable_duo, of "''s1''" "''R''" "Some ''b''" "''R''" alice_slot]
    reachable_duo caller admin before
  show ?thesis by (simp only: simp_thms option.map)
qed

text \<open>
  C1, as stated, fails: Alice opens the room and is admin; Bob joins with a request
  that asks for the admin flag and is granted it. The room now has two admins.
\<close>

theorem second_admin_on_request:
  "map_option admin_count (map_of solo ''R'') = Some 1
   \<and> map_option admin_count (map_of (fst (join_room solo ''s2'' ''R'' bob_admin 2000)) ''R'') = Some 2
   \<and> \<not> single_admin (fst (join_room solo ''s2'' ''R'' bob_admin 2000))"
  by (simp add: solo_table join_room_def bob_admin_def remove_old_connection_def
        find_by_user_id_def single_admin_def admin_count_def room_of_def alice_slot_def Let_def)

text \<open>
  The joins that keep one admin are all admitted: the sole participant who rejoins on her
  own socket asking for the flag, the admin who reconnects on a new socket asking for
  it, and a join asking for it into a room whose admin has left.
\<close>

lemma unrivalled_samples:
  "unrivalled_join solo ''s1'' ''R'' alice_admin"
  "unrivalled_join duo ''s3'' ''R'' alice_admin"
  "unrivalled_join (fst (disconnect duo ''s1'')) ''s3'' ''R'' alice_admin"
  "\<not> unrivalled_join solo ''s2'' ''R'' bob_admin"
  by (simp_all add: unrivalled_join_def join_accepted_def other_admins_def solo_table duo_table
        disconnect_def alice_admin_def bob_admin_def remove_old_connection_def
        find_by_user_id_def room_of_def alice_slot_def bob_slot_def Let_def)

end
